theory Spec2Isabelle
  imports Main "HOL-Library.Char_ord" "HOL-Library.List_Lexorder"
begin

section \<open>ElectricSheep: working memory, deep memory and the dream cycle\<close>

text \<open>
  A shallow embedding of \<^verbatim>\<open>electricsheep/memory.py\<close> and
  \<^verbatim>\<open>electricsheep/dreamer.py\<close>. The three persisted stores (the JSON file of
  working memory, the SQLite table \<^verbatim>\<open>deep_memories\<close>, the JSON file of the agent
  state) and the directory of dream files are values that each operation takes and
  returns. Every \<^verbatim>\<open>datetime.now(timezone.utc)\<close> the source reads is an argument.
  Console output is left out.

  Python's \<^verbatim>\<open>str\<close> is modelled as \<open>string\<close>, one \<open>char\<close> per code point, so
  the model covers text whose code points are below 256.
\<close>

subsection \<open>Python string and list primitives\<close>

text \<open>\<^verbatim>\<open>xs[i:]\<close>: a negative start counts from the end and is clamped at 0.\<close>

definition slice_from :: "int \<Rightarrow> 'a list \<Rightarrow> 'a list" where
  "slice_from i xs =
     (if i < 0 then drop (nat (max (int (length xs) + i) 0)) xs else drop (nat i) xs)"

text \<open>\<^verbatim>\<open>sep.join(xs)\<close>.\<close>

fun join :: "string \<Rightarrow> string list \<Rightarrow> string" where
  "join sep [] = []"
| "join sep [x] = x"
| "join sep (x # y # ys) = x @ sep @ join sep (y # ys)"

text \<open>\<^verbatim>\<open>str(n)\<close> for a number that is not negative.\<close>

definition digit_char :: "nat \<Rightarrow> char" where
  "digit_char d = char_of (48 + d)"

fun str_nat :: "nat \<Rightarrow> string" where
  "str_nat n = (if n < 10 then [digit_char n] else str_nat (n div 10) @ [digit_char (n mod 10)])"

declare str_nat.simps [simp del]

subsection \<open>JSON values\<close>

datatype json =
    JNull
  | JBool bool
  | JInt int
  | JStr string
  | JArr "json list"
  | JObj "(string \<times> json) list"

text \<open>
  A Python \<^verbatim>\<open>dict\<close> with string keys is an association list in insertion order:
  \<^verbatim>\<open>d[k] = v\<close> replaces the value of a key that is present, in place, and appends a
  new key at the end. \<^verbatim>\<open>d.get(k)\<close> is \<open>map_of d k\<close>. Numbers are integers:
  the program stores no other number.
\<close>

fun dict_set :: "string \<Rightarrow> 'v \<Rightarrow> (string \<times> 'v) list \<Rightarrow> (string \<times> 'v) list" where
  "dict_set k v [] = [(k, v)]"
| "dict_set k v ((k', v') # d) = (if k' = k then (k, v) # d else (k', v') # dict_set k v d)"

subsection \<open>Working memory (\<^verbatim>\<open>memory.py\<close>, lines 177 to 254)\<close>

record wm_entry =
  wm_timestamp :: string
  wm_category :: string
  wm_summary :: string
  wm_metadata :: "(string \<times> json) list option"

definition WORKING_MEMORY_MAX_ENTRIES :: int where
  "WORKING_MEMORY_MAX_ENTRIES = 50"

text \<open>
  \<^verbatim>\<open>store_working_memory(summary, category, metadata)\<close>; \<open>now\<close> is the ISO text of
  the clock reading. \<^verbatim>\<open>if metadata:\<close> is false for \<^verbatim>\<open>None\<close> and for the empty
  dictionary, and then the entry has no \<^verbatim>\<open>metadata\<close> key.
\<close>

definition store_working_memory ::
  "string \<Rightarrow> string \<Rightarrow> string \<Rightarrow> (string \<times> json) list option \<Rightarrow> wm_entry list \<Rightarrow> wm_entry list"
where
  "store_working_memory now summary category metadata memories =
     (let entry = \<lparr>wm_timestamp = now, wm_category = category, wm_summary = summary,
                    wm_metadata = (case metadata of None \<Rightarrow> None
                                   | Some d \<Rightarrow> (if d = [] then None else Some d))\<rparr>;
          memories1 = memories @ [entry]
      in if int (length memories1) > WORKING_MEMORY_MAX_ENTRIES
         then slice_from (- WORKING_MEMORY_MAX_ENTRIES) memories1
         else memories1)"

text \<open>The entry that one call inserts, and a sequence of calls, oldest first.\<close>

type_synonym wm_call = "string \<times> string \<times> string \<times> (string \<times> json) list option"

fun wm_entry_of :: "wm_call \<Rightarrow> wm_entry" where
  "wm_entry_of (now, summary, category, metadata) =
     \<lparr>wm_timestamp = now, wm_category = category, wm_summary = summary,
      wm_metadata = (case metadata of None \<Rightarrow> None
                     | Some d \<Rightarrow> (if d = [] then None else Some d))\<rparr>"

fun store_working_memory_all :: "wm_call list \<Rightarrow> wm_entry list \<Rightarrow> wm_entry list" where
  "store_working_memory_all [] memories = memories"
| "store_working_memory_all ((now, summary, category, metadata) # calls) memories =
     store_working_memory_all calls (store_working_memory now summary category metadata memories)"

text \<open>The last \<open>n\<close> elements of a list, all of it when it is shorter.\<close>

definition most_recent :: "nat \<Rightarrow> 'a list \<Rightarrow> 'a list" where
  "most_recent n xs = drop (length xs - n) xs"

text \<open>
  \<^verbatim>\<open>get_working_memory_context(max_tokens_approx)\<close>. The loop walks the entries from
  the most recent one backwards; \<open>lines\<close> and \<open>char_count\<close> are its variables and
  \<open>n_memories\<close> is \<^verbatim>\<open>len(memories)\<close>.
\<close>

definition context_line :: "wm_entry \<Rightarrow> string" where
  "context_line mem =
     ''['' @ take 16 (wm_timestamp mem) @ ''] ('' @ wm_category mem @ '') '' @ wm_summary mem"

definition omitted_line :: "nat \<Rightarrow> string" where
  "omitted_line n = ''... ('' @ str_nat n @ '' older memories omitted)''"

fun context_loop :: "int \<Rightarrow> nat \<Rightarrow> wm_entry list \<Rightarrow> string list \<Rightarrow> int \<Rightarrow> string list" where
  "context_loop char_budget n_memories [] lines char_count = lines"
| "context_loop char_budget n_memories (mem # rest) lines char_count =
     (let line = context_line mem
      in if char_count + int (length line) > char_budget
         then omitted_line (n_memories - length lines) # lines
         else context_loop char_budget n_memories rest (line # lines) (char_count + int (length line)))"

definition get_working_memory_context :: "int \<Rightarrow> wm_entry list \<Rightarrow> string" where
  "get_working_memory_context max_tokens_approx memories =
     (if memories = [] then ''No memories yet. This is my first day.''
      else join [CHR 0x0A]
             (context_loop (max_tokens_approx * 4) (length memories) (rev memories) [] 0))"

text \<open>\<^verbatim>\<open>consolidate_dream_insight(insight)\<close> with its default category.\<close>

definition consolidate_dream_insight :: "string \<Rightarrow> string \<Rightarrow> wm_entry list \<Rightarrow> wm_entry list" where
  "consolidate_dream_insight now insight memories =
     store_working_memory now (''[DREAM INSIGHT] '' @ insight) ''dream_consolidation'' None memories"

subsection \<open>Deep memory (\<^verbatim>\<open>memory.py\<close>, lines 45 to 171)\<close>

text \<open>
  A row of the table \<^verbatim>\<open>deep_memories\<close>. The table is the list of its rows in
  rowid order, which is how SQLite stores it. \<^verbatim>\<open>dreamed\<close> is an INTEGER column
  with default 0 and \<^verbatim>\<open>dream_date\<close> is NULL until it is set.
\<close>

record row =
  row_id :: int
  row_timestamp :: string
  row_category :: string
  encrypted_blob :: string
  content_hash :: string
  dreamed :: int
  dream_date :: "string option"

text \<open>
  The Fernet cipher and the JSON codec are libraries, taken as parameters:
  \<open>encrypt_dumps\<close> is \<^verbatim>\<open>cipher.encrypt(json.dumps(content, default=str).encode())\<close>,
  \<open>decrypt_loads\<close> is \<^verbatim>\<open>json.loads(cipher.decrypt(blob))\<close> with \<open>None\<close> when
  either call raises, and \<open>sha256_16\<close> is the first 16 hexadecimal digits of the
  digest of the serialised content.
\<close>

record cipher =
  encrypt_dumps :: "json \<Rightarrow> string"
  decrypt_loads :: "string \<Rightarrow> json option"
  sha256_16 :: "json \<Rightarrow> string"

text \<open>
  \<^verbatim>\<open>INTEGER PRIMARY KEY AUTOINCREMENT\<close>: one more than the largest id the table has
  held. No statement of the program deletes a row, so that is the largest id present.
\<close>

definition next_row_id :: "row list \<Rightarrow> int" where
  "next_row_id rows = foldr max (map row_id rows) 0 + 1"

definition store_deep_memory :: "cipher \<Rightarrow> string \<Rightarrow> json \<Rightarrow> string \<Rightarrow> row list \<Rightarrow> row list" where
  "store_deep_memory c now content category rows =
     rows @ [\<lparr>row_id = next_row_id rows, row_timestamp = now, row_category = category,
              encrypted_blob = encrypt_dumps c content, content_hash = sha256_16 c content,
              dreamed = 0, dream_date = None\<rparr>]"

text \<open>The dictionaries that \<^verbatim>\<open>retrieve_undreamed_memories\<close> returns.\<close>

record memory =
  mem_id :: int
  mem_timestamp :: string
  mem_category :: string
  mem_content :: json

text \<open>
  \<^verbatim>\<open>SELECT ... WHERE dreamed = 0 ORDER BY timestamp\<close>. The column is TEXT, compared
  byte by byte, which is the lexicographic order of \<open>string\<close>. SQLite answers the
  query from the index on \<^verbatim>\<open>(dreamed, timestamp)\<close>, whose entries end with the rowid,
  so rows with equal timestamps come in rowid order: a stable sort of the table.
\<close>

definition select_undreamed :: "row list \<Rightarrow> row list" where
  "select_undreamed rows = sort_key row_timestamp (filter (\<lambda>r. dreamed r = 0) rows)"

text \<open>The body of the loop: the \<^verbatim>\<open>try\<close> branch and the \<^verbatim>\<open>except Exception\<close> branch.\<close>

definition decrypt_row :: "cipher \<Rightarrow> row \<Rightarrow> memory" where
  "decrypt_row c r =
     (case decrypt_loads c (encrypted_blob r) of
        Some decrypted \<Rightarrow>
          \<lparr>mem_id = row_id r, mem_timestamp = row_timestamp r,
           mem_category = row_category r, mem_content = decrypted\<rparr>
      | None \<Rightarrow>
          \<lparr>mem_id = row_id r, mem_timestamp = row_timestamp r,
           mem_category = ''corrupted'',
           mem_content = JObj [(''note'', JStr ''This memory could not be recovered.'')]\<rparr>)"

definition retrieve_undreamed_memories :: "cipher \<Rightarrow> row list \<Rightarrow> memory list" where
  "retrieve_undreamed_memories c rows = map (decrypt_row c) (select_undreamed rows)"

text \<open>
  \<^verbatim>\<open>mark_as_dreamed(memory_ids)\<close>:
  \<^verbatim>\<open>UPDATE deep_memories SET dreamed = 1, dream_date = ? WHERE id IN (...)\<close>,
  with \<open>now\<close> the clock reading of the call.
\<close>

definition mark_as_dreamed :: "string \<Rightarrow> int list \<Rightarrow> row list \<Rightarrow> row list" where
  "mark_as_dreamed now memory_ids rows =
     (if memory_ids = [] then rows
      else map (\<lambda>r. if row_id r \<in> set memory_ids
                     then r\<lparr>dreamed := 1, dream_date := Some now\<rparr> else r) rows)"

text \<open>The order of the claim: by timestamp, and by id among equal timestamps.\<close>

definition timestamp_then_id :: "memory \<Rightarrow> memory \<Rightarrow> bool" where
  "timestamp_then_id a b =
     (mem_timestamp a < mem_timestamp b
      \<or> (mem_timestamp a = mem_timestamp b \<and> mem_id a < mem_id b))"

text \<open>The same order on rows.\<close>

definition row_order :: "row \<Rightarrow> row \<Rightarrow> bool" where
  "row_order a b =
     (row_timestamp a < row_timestamp b
      \<or> (row_timestamp a = row_timestamp b \<and> row_id a < row_id b))"

text \<open>A table, a cipher that cannot read the blob \<open>''garbage''\<close>, used in examples.\<close>

definition example_cipher :: cipher where
  "example_cipher =
     \<lparr>encrypt_dumps = (\<lambda>j. case j of JStr s \<Rightarrow> ''enc:'' @ s | _ \<Rightarrow> ''enc:''),
      decrypt_loads = (\<lambda>b. if take 4 b = ''enc:'' then Some (JStr (drop 4 b)) else None),
      sha256_16 = (\<lambda>j. ''0123456789abcdef'')\<rparr>"

definition example_row :: "int \<Rightarrow> string \<Rightarrow> string \<Rightarrow> int \<Rightarrow> string option \<Rightarrow> row" where
  "example_row i ts blob d dd =
     \<lparr>row_id = i, row_timestamp = ts, row_category = ''interaction'', encrypted_blob = blob,
      content_hash = ''0123456789abcdef'', dreamed = d, dream_date = dd\<rparr>"

definition example_rows :: "row list" where
  "example_rows =
     [example_row 1 ''2026-01-02T10:00'' ''enc:a'' 0 None,
      example_row 2 ''2026-01-01T09:00'' ''garbage'' 0 None,
      example_row 3 ''2026-01-01T09:00'' ''enc:c'' 0 None,
      example_row 4 ''2026-01-01T08:00'' ''enc:d'' 1 (Some ''2026-01-01T23:00'')]"

subsection \<open>Parsing the generated dream (\<^verbatim>\<open>dreamer.py\<close>, lines 68 to 89)\<close>

datatype error = GenerationFailure | StorageIO | IndexError | TypeError

text \<open>
  \<^verbatim>\<open>str.strip()\<close> removes the characters for which \<^verbatim>\<open>str.isspace()\<close> holds; below
  code point 256 these are the twelve listed.
\<close>

definition is_space :: "char \<Rightarrow> bool" where
  "is_space c =
     (c \<in> set [CHR 0x09, CHR 0x0A, CHR 0x0B, CHR 0x0C, CHR 0x0D, CHR 0x1C, CHR 0x1D,
                CHR 0x1E, CHR 0x1F, CHR 0x20, CHR 0x85, CHR 0xA0])"

definition lstrip :: "string \<Rightarrow> string" where
  "lstrip s = dropWhile is_space s"

definition rstrip :: "string \<Rightarrow> string" where
  "rstrip s = rev (dropWhile is_space (rev s))"

definition strip :: "string \<Rightarrow> string" where
  "strip s = lstrip (rstrip s)"

text \<open>\<^verbatim>\<open>s.lstrip(chars)\<close>: drops leading characters that occur in \<open>chars\<close>.\<close>

definition lstrip_chars :: "string \<Rightarrow> string \<Rightarrow> string" where
  "lstrip_chars chars s = dropWhile (\<lambda>c. c \<in> set chars) s"

text \<open>\<^verbatim>\<open>s.split(sep)\<close> for a separator of one character: never the empty list.\<close>

fun split :: "char \<Rightarrow> string \<Rightarrow> string list" where
  "split sep [] = [[]]"
| "split sep (c # s) =
     (if c = sep then [] # split sep s
      else (case split sep s of [] \<Rightarrow> [[c]] | l # ls \<Rightarrow> (c # l) # ls))"

text \<open>\<^verbatim>\<open>s.split(sep, 1)\<close>: one piece when \<open>sep\<close> is absent, two otherwise.\<close>

definition split_once :: "char \<Rightarrow> string \<Rightarrow> string list" where
  "split_once sep s =
     (if sep \<in> set s
      then [takeWhile (\<lambda>c. c \<noteq> sep) s, tl (dropWhile (\<lambda>c. c \<noteq> sep) s)]
      else [s])"

text \<open>\<^verbatim>\<open>xs[0]\<close> and \<^verbatim>\<open>xs[1]\<close>, which raise \<^verbatim>\<open>IndexError\<close> on a list too short.\<close>

definition index0 :: "'a list \<Rightarrow> error + 'a" where
  "index0 xs = (case xs of [] \<Rightarrow> Inl IndexError | x # _ \<Rightarrow> Inr x)"

definition index1 :: "'a list \<Rightarrow> error + 'a" where
  "index1 xs = (case xs of x # y # _ \<Rightarrow> Inr y | _ \<Rightarrow> Inl IndexError)"

text \<open>
  \<^verbatim>\<open>str.upper()\<close> on the letters a to z. The source only tests the result for the
  ASCII prefix \<^verbatim>\<open>CONSOLIDATION:\<close>, and no other character below code point 256 has
  an upper case form that contributes to that prefix.
\<close>

definition upper_char :: "char \<Rightarrow> char" where
  "upper_char c =
     (if 97 \<le> (of_char c :: nat) \<and> (of_char c :: nat) \<le> 122
      then char_of ((of_char c :: nat) - 32) else c)"

definition upper :: "string \<Rightarrow> string" where
  "upper s = map upper_char s"

definition startswith :: "string \<Rightarrow> string \<Rightarrow> bool" where
  "startswith prefix s = (take (length prefix) s = prefix)"

record dream =
  dream_title :: string
  dream_narrative :: string
  dream_consolidation :: string

text \<open>The loop over \<^verbatim>\<open>lines[1:]\<close>, with its two variables.\<close>

fun parse_lines :: "string list \<Rightarrow> string \<Rightarrow> string list \<Rightarrow> error + (string \<times> string list)" where
  "parse_lines [] consolidation narrative_lines = Inr (consolidation, narrative_lines)"
| "parse_lines (line # rest) consolidation narrative_lines =
     (if startswith ''CONSOLIDATION:'' (upper (strip line))
      then (case index1 (split_once CHR '':'' (strip line)) of
              Inl err \<Rightarrow> Inl err
            | Inr after \<Rightarrow> parse_lines rest (strip after) narrative_lines)
      else parse_lines rest consolidation (narrative_lines @ [line]))"

text \<open>
  The parsing part of \<^verbatim>\<open>generate_dream\<close>; \<open>response\<close> is
  \<^verbatim>\<open>resp.content[0].text\<close>.
\<close>

definition parse_dream :: "string \<Rightarrow> error + dream" where
  "parse_dream response =
     (let text = strip response; lines = split (CHR 0x0A) text
      in case index0 lines of
           Inl err \<Rightarrow> Inl err
         | Inr first \<Rightarrow>
             (case parse_lines (tl lines) [] [] of
                Inl err \<Rightarrow> Inl err
              | Inr (consolidation, narrative_lines) \<Rightarrow>
                  Inr \<lparr>dream_title = strip (lstrip_chars ''# '' (strip first)),
                       dream_narrative = strip (join [CHR 0x0A] narrative_lines),
                       dream_consolidation = consolidation\<rparr>))"

text \<open>
  The parse as the specification words it: the first line is the title; the lines
  after it that are consolidation lines are taken out of the narrative, and the
  remainder after the colon of such a line is the consolidation (of the last one when
  there are several, the empty string when there is none).
\<close>

definition spec_lines :: "string \<Rightarrow> string list" where
  "spec_lines response = split (CHR 0x0A) (strip response)"

definition spec_is_consolidation_line :: "string \<Rightarrow> bool" where
  "spec_is_consolidation_line line = startswith ''CONSOLIDATION:'' (upper (strip line))"

definition spec_after_colon :: "string \<Rightarrow> string" where
  "spec_after_colon s = tl (dropWhile (\<lambda>c. c \<noteq> CHR '':'') s)"

definition spec_title :: "string \<Rightarrow> string" where
  "spec_title response = strip (lstrip_chars ''# '' (strip (hd (spec_lines response))))"

definition spec_narrative :: "string \<Rightarrow> string" where
  "spec_narrative response =
     strip (join [CHR 0x0A]
       (filter (\<lambda>l. \<not> spec_is_consolidation_line l) (tl (spec_lines response))))"

definition spec_consolidation :: "string \<Rightarrow> string" where
  "spec_consolidation response =
     (case rev (filter spec_is_consolidation_line (tl (spec_lines response))) of
        [] \<Rightarrow> []
      | l # _ \<Rightarrow> strip (spec_after_colon (strip l)))"

definition example_response :: string where
  "example_response =
     ''Title'' @ [CHR 0x0A] @ ''Line one'' @ [CHR 0x0A] @ ''CONSOLIDATION: insight text''
       @ [CHR 0x0A] @ ''Line two''"

subsection \<open>The dream cycle (\<^verbatim>\<open>dreamer.py\<close>) and \<^verbatim>\<open>remember\<close> (\<^verbatim>\<open>memory.py\<close>)\<close>

text \<open>
  What is persisted: the table of deep memories, the working memory file, the files of
  the dreams directory (name and content) and the state file.
\<close>

record world =
  deep_memories :: "row list"
  working_memory :: "wm_entry list"
  dream_files :: "(string \<times> string) list"
  agent_state :: "(string \<times> json) list"

text \<open>
  The calls that write to storage. Each one either completes or raises before it
  changes anything; which of them raise is part of the environment.
\<close>

datatype io_call =
    Save_dream_locally
  | Store_working_memory
  | Store_deep_memory
  | Mark_as_dreamed
  | Save_state

text \<open>
  The environment of a run: the cipher, the generation collaborator (the call
  \<^verbatim>\<open>claude.messages.create\<close> on the prompt formatted from the memories, giving
  \<^verbatim>\<open>resp.content[0].text\<close> or an error) and the storage calls that raise.
\<close>

record env =
  env_cipher :: cipher
  generate :: "memory list \<Rightarrow> error + string"
  raises :: "io_call \<Rightarrow> bool"

text \<open>The clock readings of one dream cycle, in the order of the source.\<close>

record clock =
  now_dreamless :: string
  date_str :: string
  now_insight :: string
  now_mark :: string
  now_last_dream :: string

definition generate_dream :: "env \<Rightarrow> memory list \<Rightarrow> error + dream" where
  "generate_dream e memories =
     (case generate e memories of
        Inl err \<Rightarrow> Inl err
      | Inr response \<Rightarrow> parse_dream response)"

text \<open>\<^verbatim>\<open>s.replace(a, b)\<close> for single characters.\<close>

definition replace_char :: "char \<Rightarrow> char \<Rightarrow> string \<Rightarrow> string" where
  "replace_char a b s = map (\<lambda>c. if c = a then b else c) s"

definition dream_filename :: "dream \<Rightarrow> string \<Rightarrow> string" where
  "dream_filename d date =
     date @ ''_''
       @ replace_char CHR ''/'' CHR ''_'' (replace_char CHR '' '' CHR ''_'' (take 40 (dream_title d)))
       @ ''.md''"

definition dream_file_content :: "dream \<Rightarrow> string \<Rightarrow> string" where
  "dream_file_content d date =
     ''# '' @ dream_title d @ [CHR 0x0A] @ ''*Dreamed: '' @ date @ ''*'' @ [CHR 0x0A, CHR 0x0A]
       @ dream_narrative d @ [CHR 0x0A, CHR 0x0A] @ ''---'' @ [CHR 0x0A]
       @ ''**Consolidation:** '' @ dream_consolidation d @ [CHR 0x0A]"

definition save_dream_locally ::
  "dream \<Rightarrow> string \<Rightarrow> (string \<times> string) list \<Rightarrow> (string \<times> string) list" where
  "save_dream_locally d date files =
     dict_set (dream_filename d date) (dream_file_content d date) files"

text \<open>\<^verbatim>\<open>v + 1\<close> for a JSON value \<open>v\<close>: defined on integers and booleans.\<close>

definition py_add_one :: "json \<Rightarrow> error + json" where
  "py_add_one v =
     (case v of
        JInt n \<Rightarrow> Inr (JInt (n + 1))
      | JBool b \<Rightarrow> Inr (JInt ((if b then 1 else 0) + 1))
      | _ \<Rightarrow> Inl TypeError)"

text \<open>Lines 163 to 166 of \<^verbatim>\<open>dreamer.py\<close>: the state that the cycle saves at its end.\<close>

definition dreamed_state ::
  "string \<Rightarrow> dream \<Rightarrow> (string \<times> json) list \<Rightarrow> error + (string \<times> json) list" where
  "dreamed_state now d st =
     (let st1 = dict_set ''last_dream'' (JStr now) st
      in case (case map_of st1 ''total_dreams'' of
                 None \<Rightarrow> Inr (JInt 1)
               | Some v \<Rightarrow> py_add_one v) of
           Inl err \<Rightarrow> Inl err
         | Inr n \<Rightarrow>
             Inr (dict_set ''latest_dream_title'' (JStr (dream_title d))
                   (dict_set ''total_dreams'' n st1)))"

text \<open>Line 132: the state that a dreamless night saves.\<close>

definition dreamless_state :: "string \<Rightarrow> (string \<times> json) list \<Rightarrow> (string \<times> json) list" where
  "dreamless_state now st =
     dict_set ''dream_count'' (JInt 0) (dict_set ''last_dream'' (JStr now) st)"

text \<open>
  \<^verbatim>\<open>run_dream_cycle()\<close>. The result is the returned value (\<open>None\<close> or the dream) or
  the error that propagates, with the world as the run leaves it. The call of
  \<^verbatim>\<open>deep_memory_stats\<close> only reads and prints.
\<close>

definition run_dream_cycle :: "env \<Rightarrow> clock \<Rightarrow> world \<Rightarrow> (error + dream option) \<times> world" where
  "run_dream_cycle e clk w =
     (let memories = retrieve_undreamed_memories (env_cipher e) (deep_memories w)
      in if memories = [] then
           (if raises e Save_state then (Inl StorageIO, w)
            else (Inr None,
                  w\<lparr>agent_state := dreamless_state (now_dreamless clk) (agent_state w)\<rparr>))
         else
           (case generate_dream e memories of
              Inl err \<Rightarrow> (Inl err, w)
            | Inr d \<Rightarrow>
                if raises e Save_dream_locally then (Inl StorageIO, w)
                else
                  let w1 = w\<lparr>dream_files :=
                               save_dream_locally d (date_str clk) (dream_files w)\<rparr>
                  in if dream_consolidation d \<noteq> [] \<and> raises e Store_working_memory
                     then (Inl StorageIO, w1)
                     else
                       let w2 = (if dream_consolidation d \<noteq> []
                                 then w1\<lparr>working_memory :=
                                          consolidate_dream_insight (now_insight clk)
                                            (dream_consolidation d) (working_memory w1)\<rparr>
                                 else w1);
                           memory_ids = map mem_id memories
                       in if raises e Mark_as_dreamed then (Inl StorageIO, w2)
                          else
                            let w3 = w2\<lparr>deep_memories :=
                                         mark_as_dreamed (now_mark clk) memory_ids
                                           (deep_memories w2)\<rparr>
                            in case dreamed_state (now_last_dream clk) d (agent_state w3) of
                                 Inl err \<Rightarrow> (Inl err, w3)
                               | Inr st \<Rightarrow>
                                   if raises e Save_state then (Inl StorageIO, w3)
                                   else (Inr (Some d), w3\<lparr>agent_state := st\<rparr>)))"

text \<open>
  \<^verbatim>\<open>remember(summary, full_context, category)\<close>, with the clock readings of its
  two calls.
\<close>

definition remember ::
  "env \<Rightarrow> string \<Rightarrow> string \<Rightarrow> string \<Rightarrow> json \<Rightarrow> string \<Rightarrow> world \<Rightarrow> (error + unit) \<times> world" where
  "remember e now_working now_deep summary full_context category w =
     (if raises e Store_working_memory then (Inl StorageIO, w)
      else
        let w1 = w\<lparr>working_memory :=
                     store_working_memory now_working summary category None (working_memory w)\<rparr>
        in if raises e Store_deep_memory then (Inl StorageIO, w1)
           else (Inr (),
                 w1\<lparr>deep_memories :=
                      store_deep_memory (env_cipher e) now_deep full_context category
                        (deep_memories w1)\<rparr>))"

text \<open>An environment in which nothing fails, a clock and a world, used in examples.\<close>

definition example_env :: env where
  "example_env =
     \<lparr>env_cipher = example_cipher,
      generate = (\<lambda>memories. Inr example_response),
      raises = (\<lambda>call. False)\<rparr>"

definition example_clock :: clock where
  "example_clock =
     \<lparr>now_dreamless = ''2026-01-03T00:00:00'', date_str = ''2026-01-03'',
      now_insight = ''2026-01-03T00:00:01'', now_mark = ''2026-01-03T00:00:02'',
      now_last_dream = ''2026-01-03T00:00:03''\<rparr>"

definition example_world :: world where
  "example_world =
     \<lparr>deep_memories = example_rows, working_memory = [], dream_files = [],
      agent_state = [(''total_dreams'', JInt 4)]\<rparr>"

text \<open>
  An environment whose generation collaborator fails, one whose deep store write
  raises, and a world with no undreamed memory.
\<close>

definition generation_failing_env :: env where
  "generation_failing_env = example_env\<lparr>generate := (\<lambda>memories. Inl GenerationFailure)\<rparr>"

definition deep_write_failing_env :: env where
  "deep_write_failing_env = example_env\<lparr>raises := (\<lambda>call. call = Store_deep_memory)\<rparr>"



section \<open>Properties\<close>

subsection \<open>Working memory is a bounded FIFO log\<close>

lemma wm_entry_of_store:
  "store_working_memory now summary category metadata memories =
     most_recent 50 (memories @ [wm_entry_of (now, summary, category, metadata)])"
  by (simp add: store_working_memory_def WORKING_MEMORY_MAX_ENTRIES_def slice_from_def
      most_recent_def Let_def max_def nat_diff_distrib')

lemma most_recent_append_one:
  "most_recent n (most_recent n xs @ [x]) = most_recent n (xs @ [x])"
proof (cases "length xs \<le> n")
  case True
  then show ?thesis by (simp add: most_recent_def)
next
  case False
  then have "Suc (length xs) - (length xs - n + n) + (length xs - n) = Suc (length xs) - n"
    by simp
  with False show ?thesis by (simp add: most_recent_def)
qed

lemma store_working_memory_all_recent:
  "store_working_memory_all calls (most_recent 50 xs) =
     most_recent 50 (xs @ map wm_entry_of calls)"
proof (induction calls arbitrary: xs)
  case Nil
  show ?case by simp
next
  case (Cons c calls)
  obtain now summary category metadata where c: "c = (now, summary, category, metadata)"
    by (cases c) auto
  have "store_working_memory_all (c # calls) (most_recent 50 xs) =
          store_working_memory_all calls (most_recent 50 (xs @ [wm_entry_of c]))"
    unfolding c by (simp only: store_working_memory_all.simps wm_entry_of_store most_recent_append_one)
  also have "\<dots> = most_recent 50 ((xs @ [wm_entry_of c]) @ map wm_entry_of calls)"
    by (rule Cons.IH)
  finally show ?case by simp
qed

lemma length_most_recent: "length (most_recent n xs) \<le> n"
  by (simp add: most_recent_def)

text \<open>
  C3. From the empty store, after any sequence of appends the store holds at most
  \<^verbatim>\<open>WORKING_MEMORY_MAX_ENTRIES\<close> = 50 entries, and they are the last 50 insertions
  in insertion order (all of them when there are fewer). The sequence is arbitrary, so
  this holds after each append. One append to any store leaves the last 50 entries of
  the store extended by the new entry.
\<close>

theorem C3_working_store_bounded_fifo:
  "WORKING_MEMORY_MAX_ENTRIES = 50
   \<and> int (length (store_working_memory_all calls [])) \<le> WORKING_MEMORY_MAX_ENTRIES
   \<and> store_working_memory_all calls [] = most_recent 50 (map wm_entry_of calls)
   \<and> int (length (store_working_memory now summary category metadata memories))
       \<le> WORKING_MEMORY_MAX_ENTRIES
   \<and> store_working_memory now summary category metadata memories =
       most_recent 50 (memories @ [wm_entry_of (now, summary, category, metadata)])"
proof -
  have all: "store_working_memory_all calls [] = most_recent 50 (map wm_entry_of calls)"
    using store_working_memory_all_recent [of calls "[]"] by (simp add: most_recent_def)
  have "length (store_working_memory_all calls []) \<le> 50"
    unfolding all by (rule length_most_recent)
  moreover have "length (store_working_memory now summary category metadata memories) \<le> 50"
    unfolding wm_entry_of_store by (rule length_most_recent)
  ultimately show ?thesis
    using all by (simp add: WORKING_MEMORY_MAX_ENTRIES_def wm_entry_of_store)
qed

subsection \<open>Reading the unprocessed records\<close>

lemma foldr_max_ge: "x \<in> set xs \<Longrightarrow> x \<le> foldr max xs (0::int)"
  by (induction xs) auto

lemma next_row_id_greater: "r \<in> set rows \<Longrightarrow> row_id r < next_row_id rows"
  using foldr_max_ge [of "row_id r" "map row_id rows"] by (simp add: next_row_id_def)

text \<open>Inserting keeps the ids strictly increasing along the table.\<close>

lemma store_deep_memory_ids_increasing:
  "sorted_wrt (<) (map row_id rows) \<Longrightarrow>
   sorted_wrt (<) (map row_id (store_deep_memory c now content category rows))"
  by (auto simp: store_deep_memory_def sorted_wrt_append next_row_id_greater)

lemma insort_row_order:
  "sorted_wrt row_order ys \<Longrightarrow> (\<And>y. y \<in> set ys \<Longrightarrow> row_id x < row_id y) \<Longrightarrow>
   sorted_wrt row_order (insort_key row_timestamp x ys)"
proof (induction ys)
  case Nil
  show ?case by simp
next
  case (Cons y ys)
  show ?case
  proof (cases "row_timestamp x \<le> row_timestamp y")
    case True
    have "row_order x z" if "z \<in> set (y # ys)" for z
    proof -
      have le: "row_timestamp x \<le> row_timestamp z"
      proof (cases "z = y")
        case True
        with \<open>row_timestamp x \<le> row_timestamp y\<close> show ?thesis by simp
      next
        case False
        with that Cons.prems(1) have "row_order y z" by auto
        then have "row_timestamp y \<le> row_timestamp z" by (auto simp: row_order_def)
        with True show ?thesis by simp
      qed
      from Cons.prems(2) that have "row_id x < row_id z" by blast
      with le show ?thesis by (auto simp: row_order_def)
    qed
    with True Cons.prems(1) show ?thesis by auto
  next
    case False
    then have yx: "row_order y x" by (auto simp: row_order_def)
    have ih: "sorted_wrt row_order (insort_key row_timestamp x ys)"
      using Cons.IH Cons.prems by auto
    from False yx ih Cons.prems(1) show ?thesis
      by (auto simp: set_insort_key)
  qed
qed

lemma sort_key_row_order:
  "sorted_wrt (<) (map row_id xs) \<Longrightarrow> sorted_wrt row_order (sort_key row_timestamp xs)"
proof (induction xs)
  case Nil
  show ?case by simp
next
  case (Cons x xs)
  have step: "sort_key row_timestamp (x # xs) =
      insort_key row_timestamp x (sort_key row_timestamp xs)"
    by (simp add: sort_key_def)
  have sorted_tail: "sorted_wrt row_order (sort_key row_timestamp xs)"
    using Cons by simp
  have smallest: "row_id x < row_id y" if "y \<in> set (sort_key row_timestamp xs)" for y
    using Cons.prems that by auto
  show ?case
    unfolding step by (rule insort_row_order [OF sorted_tail smallest])
qed

lemma sorted_wrt_filter_ids:
  "sorted_wrt (<) (map row_id xs) \<Longrightarrow> sorted_wrt (<) (map row_id (filter P xs))"
  by (induction xs) auto

lemma decrypt_row_id [simp]: "mem_id (decrypt_row c r) = row_id r"
  by (simp add: decrypt_row_def split: option.splits)

lemma decrypt_row_timestamp [simp]: "mem_timestamp (decrypt_row c r) = row_timestamp r"
  by (simp add: decrypt_row_def split: option.splits)

lemma retrieve_ids:
  "map mem_id (retrieve_undreamed_memories c rows) = map row_id (select_undreamed rows)"
  by (simp add: retrieve_undreamed_memories_def comp_def)

lemma set_select_undreamed: "set (select_undreamed rows) = {r \<in> set rows. dreamed r = 0}"
  by (simp add: select_undreamed_def)

lemma retrieve_sorted:
  assumes "sorted_wrt (<) (map row_id rows)"
  shows "sorted_wrt timestamp_then_id (retrieve_undreamed_memories c rows)"
proof -
  have "sorted_wrt row_order (select_undreamed rows)"
    unfolding select_undreamed_def
    by (rule sort_key_row_order) (rule sorted_wrt_filter_ids [OF assms])
  moreover have "timestamp_then_id (decrypt_row c a) (decrypt_row c b) = row_order a b" for a b
    by (simp add: timestamp_then_id_def row_order_def)
  ultimately show ?thesis
    by (simp add: retrieve_undreamed_memories_def sorted_wrt_map)
qed

text \<open>
  C4. On a table whose ids increase along the rows (what AUTOINCREMENT inserts give),
  \<^verbatim>\<open>retrieve_undreamed_memories\<close> returns one entry for each row with
  \<^verbatim>\<open>dreamed = 0\<close> and none for any other row, each id once, ordered by timestamp
  ascending and by id ascending among equal timestamps.
\<close>

theorem C4_retrieve_exactly_undreamed_in_order:
  assumes "sorted_wrt (<) (map row_id rows)"
  shows "set (map mem_id (retrieve_undreamed_memories c rows)) =
           {row_id r | r. r \<in> set rows \<and> dreamed r = 0}
         \<and> (\<forall>r \<in> set rows. dreamed r \<noteq> 0 \<longrightarrow>
              row_id r \<notin> set (map mem_id (retrieve_undreamed_memories c rows)))
         \<and> distinct (map mem_id (retrieve_undreamed_memories c rows))
         \<and> length (retrieve_undreamed_memories c rows) =
             length (filter (\<lambda>r. dreamed r = 0) rows)
         \<and> sorted_wrt timestamp_then_id (retrieve_undreamed_memories c rows)"
proof -
  have dist: "distinct (map row_id rows)"
    using assms by (simp add: strict_sorted_iff)
  have exact: "set (map mem_id (retrieve_undreamed_memories c rows)) =
          {row_id r | r. r \<in> set rows \<and> dreamed r = 0}"
    unfolding retrieve_ids by (auto simp: set_select_undreamed)
  have never: "row_id r \<notin> set (map mem_id (retrieve_undreamed_memories c rows))"
    if "r \<in> set rows" "dreamed r \<noteq> 0" for r
  proof
    assume "row_id r \<in> set (map mem_id (retrieve_undreamed_memories c rows))"
    then obtain r' where r': "r' \<in> set rows" "dreamed r' = 0" "row_id r' = row_id r"
      unfolding retrieve_ids by (auto simp: set_select_undreamed)
    from dist r'(1,3) that(1) have "r' = r"
      by (meson distinct_map inj_onD)
    with r'(2) that(2) show False by simp
  qed
  have "distinct (map row_id (filter (\<lambda>r. dreamed r = 0) rows))"
    using dist by (rule distinct_map_filter)
  then have once: "distinct (map mem_id (retrieve_undreamed_memories c rows))"
    unfolding retrieve_ids select_undreamed_def
    by (simp add: distinct_map)
  have count: "length (retrieve_undreamed_memories c rows) =
      length (filter (\<lambda>r. dreamed r = 0) rows)"
    by (simp add: retrieve_undreamed_memories_def select_undreamed_def)
  have ordered: "sorted_wrt timestamp_then_id (retrieve_undreamed_memories c rows)"
    by (rule retrieve_sorted [OF assms])
  from exact never once count ordered show ?thesis by blast
qed

text \<open>The example table: ids 2 and 3 share a timestamp, id 4 is already dreamed.\<close>

theorem C4_retrieve_witness:
  "sorted_wrt (<) (map row_id example_rows)
   \<and> map mem_id (retrieve_undreamed_memories example_cipher example_rows) = [2, 3, 1]
   \<and> set (map mem_id (retrieve_undreamed_memories example_cipher example_rows)) =
       {row_id r | r. r \<in> set example_rows \<and> dreamed r = 0}
   \<and> sorted_wrt timestamp_then_id (retrieve_undreamed_memories example_cipher example_rows)"
proof -
  have inc: "sorted_wrt (<) (map row_id example_rows)"
    by (simp add: example_rows_def example_row_def)
  have ids: "map mem_id (retrieve_undreamed_memories example_cipher example_rows) = [2, 3, 1]"
    by code_simp
  from C4_retrieve_exactly_undreamed_in_order [OF inc, of example_cipher] inc ids
  show ?thesis by blast
qed

subsection \<open>Marking records as dreamed\<close>

lemma mark_as_dreamed_member:
  "r \<in> set rows \<Longrightarrow> row_id r \<in> set ids \<Longrightarrow>
   r\<lparr>dreamed := 1, dream_date := Some t\<rparr> \<in> set (mark_as_dreamed t ids rows)"
  by (auto simp: mark_as_dreamed_def image_iff intro!: bexI [of _ r])

lemma mark_as_dreamed_map:
  "mark_as_dreamed t ids rows =
     map (\<lambda>r. if row_id r \<in> set ids then r\<lparr>dreamed := 1, dream_date := Some t\<rparr> else r) rows"
  by (cases "ids = []") (simp_all add: mark_as_dreamed_def)

lemma mark_as_dreamed_twice:
  "mark_as_dreamed b ids (mark_as_dreamed a ids rows) = mark_as_dreamed b ids rows"
  by (simp add: mark_as_dreamed_map)

lemma mark_as_dreamed_same_stamp:
  assumes "r \<in> set rows" and "row_id r \<in> set ids"
    and "mark_as_dreamed b ids rows = mark_as_dreamed a ids rows"
  shows "a = b"
proof -
  from assms(3) have "\<forall>x \<in> set rows.
      (if row_id x \<in> set ids then x\<lparr>dreamed := 1, dream_date := Some b\<rparr> else x) =
      (if row_id x \<in> set ids then x\<lparr>dreamed := 1, dream_date := Some a\<rparr> else x)"
    unfolding mark_as_dreamed_map by (simp only: map_eq_conv)
  with assms(1,2) have "r\<lparr>dreamed := 1, dream_date := Some b\<rparr> = r\<lparr>dreamed := 1, dream_date := Some a\<rparr>"
    by auto
  then have "dream_date (r\<lparr>dreamed := 1, dream_date := Some b\<rparr>) =
      dream_date (r\<lparr>dreamed := 1, dream_date := Some a\<rparr>)"
    by (rule arg_cong)
  then show ?thesis by simp
qed

text \<open>
  C2, as the code has it. \<^verbatim>\<open>mark_as_dreamed\<close> never fails. Every row whose id is
  listed gets \<^verbatim>\<open>dreamed = 1\<close> and \<^verbatim>\<open>dream_date\<close> set to the clock reading of
  the call, whether it was dreamed before or not (the UPDATE has no \<^verbatim>\<open>dreamed = 0\<close>
  condition); every other row is left as it is. A second call with the same ids leaves
  every \<^verbatim>\<open>dreamed\<close> flag as the first call left it, and after two calls the store is
  what the second call alone gives. Two calls give what the first call gives when both
  read the same clock value and, if a listed id is in the table, only then.
\<close>

theorem C2_mark_as_dreamed_last_stamp_wins:
  "mark_as_dreamed t ids rows =
     map (\<lambda>r. if row_id r \<in> set ids then r\<lparr>dreamed := 1, dream_date := Some t\<rparr> else r) rows
   \<and> (\<forall>r \<in> set rows. row_id r \<in> set ids \<longrightarrow>
         r\<lparr>dreamed := 1, dream_date := Some t\<rparr> \<in> set (mark_as_dreamed t ids rows))
   \<and> (\<forall>r \<in> set rows. row_id r \<notin> set ids \<longrightarrow> r \<in> set (mark_as_dreamed t ids rows))
   \<and> mark_as_dreamed t2 ids (mark_as_dreamed t1 ids rows) = mark_as_dreamed t2 ids rows
   \<and> mark_as_dreamed t1 ids (mark_as_dreamed t1 ids rows) = mark_as_dreamed t1 ids rows
   \<and> map dreamed (mark_as_dreamed t2 ids (mark_as_dreamed t1 ids rows)) =
       map dreamed (mark_as_dreamed t1 ids rows)
   \<and> map row_id (mark_as_dreamed t1 ids rows) = map row_id rows
   \<and> ((\<exists>r \<in> set rows. row_id r \<in> set ids) \<longrightarrow>
        (mark_as_dreamed t2 ids (mark_as_dreamed t1 ids rows) = mark_as_dreamed t1 ids rows)
          = (t1 = t2))"
proof -
  have listed: "\<forall>r \<in> set rows. row_id r \<in> set ids \<longrightarrow>
         r\<lparr>dreamed := 1, dream_date := Some t\<rparr> \<in> set (mark_as_dreamed t ids rows)"
    by (auto intro: mark_as_dreamed_member)
  have others: "\<forall>r \<in> set rows. row_id r \<notin> set ids \<longrightarrow> r \<in> set (mark_as_dreamed t ids rows)"
    unfolding mark_as_dreamed_map by (auto simp: image_iff intro!: bexI)
  have flags: "map dreamed (mark_as_dreamed t2 ids (mark_as_dreamed t1 ids rows)) =
       map dreamed (mark_as_dreamed t1 ids rows)"
    by (simp add: mark_as_dreamed_map)
  have ids: "map row_id (mark_as_dreamed t1 ids rows) = map row_id rows"
    by (simp add: mark_as_dreamed_map)
  have only: "(mark_as_dreamed t2 ids (mark_as_dreamed t1 ids rows) = mark_as_dreamed t1 ids rows)
          = (t1 = t2)" if "\<exists>r \<in> set rows. row_id r \<in> set ids"
  proof
    assume "mark_as_dreamed t2 ids (mark_as_dreamed t1 ids rows) = mark_as_dreamed t1 ids rows"
    then have eq: "mark_as_dreamed t2 ids rows = mark_as_dreamed t1 ids rows"
      by (simp only: mark_as_dreamed_twice)
    from that obtain r where "r \<in> set rows" "row_id r \<in> set ids" by blast
    then show "t1 = t2" using eq by (rule mark_as_dreamed_same_stamp)
  next
    assume "t1 = t2"
    then show "mark_as_dreamed t2 ids (mark_as_dreamed t1 ids rows) = mark_as_dreamed t1 ids rows"
      by (simp only: mark_as_dreamed_twice)
  qed
  from mark_as_dreamed_map [of t ids rows] listed others
    mark_as_dreamed_twice [of t2 ids t1 rows] mark_as_dreamed_twice [of t1 ids t1 rows]
    flags ids only
  show ?thesis by blast
qed

text \<open>
  Row 4 of the example table is already dreamed; marking it again replaces its date.
\<close>

theorem C2_mark_as_dreamed_witness:
  "(\<exists>r \<in> set example_rows. row_id r \<in> set [4])
   \<and> map dream_date example_rows = [None, None, None, Some ''2026-01-01T23:00'']
   \<and> map dream_date (mark_as_dreamed ''2026-01-03T00:00:00'' [4] example_rows) =
       [None, None, None, Some ''2026-01-03T00:00:00'']
   \<and> mark_as_dreamed ''2026-01-03T00:00:05'' [4]
         (mark_as_dreamed ''2026-01-03T00:00:00'' [4] example_rows) =
       mark_as_dreamed ''2026-01-03T00:00:05'' [4] example_rows"
proof -
  have present: "\<exists>r \<in> set example_rows. row_id r \<in> set [4]"
    by (simp add: example_rows_def example_row_def)
  have before: "map dream_date example_rows = [None, None, None, Some ''2026-01-01T23:00'']"
    by (simp add: example_rows_def example_row_def)
  from C2_mark_as_dreamed_last_stamp_wins [of "''2026-01-03T00:00:00''" "[4]" example_rows
      "''2026-01-03T00:00:05''" "''2026-01-03T00:00:00''"]
  have shape: "mark_as_dreamed ''2026-01-03T00:00:00'' [4] example_rows =
      map (\<lambda>r. if row_id r \<in> set [4]
                then r\<lparr>dreamed := 1, dream_date := Some ''2026-01-03T00:00:00''\<rparr> else r)
        example_rows"
    and twice: "mark_as_dreamed ''2026-01-03T00:00:05'' [4]
         (mark_as_dreamed ''2026-01-03T00:00:00'' [4] example_rows) =
       mark_as_dreamed ''2026-01-03T00:00:05'' [4] example_rows"
    by blast+
  have after: "map dream_date (mark_as_dreamed ''2026-01-03T00:00:00'' [4] example_rows) =
       [None, None, None, Some ''2026-01-03T00:00:00'']"
    unfolding shape by (simp add: example_rows_def example_row_def)
  from present before after twice show ?thesis by blast
qed

text \<open>
  Marking twice is not marking once: marking id 1 at one instant and again at a later
  one leaves a different \<^verbatim>\<open>dream_date\<close> than marking it once.
\<close>

theorem C2_mark_twice_counterexample:
  "mark_as_dreamed ''2026-01-03T00:00:05'' [1]
     (mark_as_dreamed ''2026-01-03T00:00:00'' [1] [example_row 1 ''2026-01-02T10:00'' ''enc:a'' 0 None])
   \<noteq> mark_as_dreamed ''2026-01-03T00:00:00'' [1] [example_row 1 ''2026-01-02T10:00'' ''enc:a'' 0 None]"
  by (simp add: mark_as_dreamed_def example_row_def)

subsection \<open>Parsing the generated dream\<close>

lemma upper_char_colon: "upper_char c = CHR '':'' \<Longrightarrow> c = CHR '':''"
proof (cases "97 \<le> (of_char c :: nat) \<and> (of_char c :: nat) \<le> 122")
  case True
  assume "upper_char c = CHR '':''"
  with True have "char_of ((of_char c :: nat) - 32) = CHR '':''"
    by (simp add: upper_char_def)
  then have "(of_char (char_of ((of_char c :: nat) - 32) :: char) :: nat) = of_char (CHR '':'')"
    by simp
  then have "((of_char c :: nat) - 32) mod 256 = 58"
    by (simp only: of_char_of) simp
  moreover from True have "(of_char c :: nat) - 32 < 256" by linarith
  then have "((of_char c :: nat) - 32) mod 256 = of_char c - 32" by (rule mod_less)
  ultimately have False using True by linarith
  then show ?thesis ..
next
  case False
  assume colon: "upper_char c = CHR '':''"
  from False have "upper_char c = c" unfolding upper_char_def by (rule if_not_P)
  with colon show ?thesis by simp
qed

lemma consolidation_line_has_colon:
  assumes "startswith ''CONSOLIDATION:'' (upper s)"
  shows "CHR '':'' \<in> set s"
proof -
  define n where "n = length ''CONSOLIDATION:''"
  from assms have eq: "take n (map upper_char s) = ''CONSOLIDATION:''"
    unfolding startswith_def upper_def n_def .
  have "CHR '':'' \<in> set ''CONSOLIDATION:''" by simp
  with eq have "CHR '':'' \<in> set (take n (map upper_char s))" by simp
  then have "CHR '':'' \<in> set (map upper_char s)" by (rule in_set_takeD)
  then obtain c where "c \<in> set s" "upper_char c = CHR '':''" by auto
  then show ?thesis using upper_char_colon by blast
qed

lemma index1_split_once:
  "CHR '':'' \<in> set s \<Longrightarrow> index1 (split_once CHR '':'' s) = Inr (spec_after_colon s)"
  by (simp add: index1_def split_once_def spec_after_colon_def)

lemma parse_lines_filter:
  "parse_lines ls consolidation narrative_lines =
     Inr (case rev (filter spec_is_consolidation_line ls) of
            [] \<Rightarrow> consolidation
          | l # _ \<Rightarrow> strip (spec_after_colon (strip l)),
          narrative_lines @ filter (\<lambda>l. \<not> spec_is_consolidation_line l) ls)"
proof (induction ls arbitrary: consolidation narrative_lines)
  case Nil
  show ?case by simp
next
  case (Cons line rest)
  show ?case
  proof (cases "spec_is_consolidation_line line")
    case True
    then have colon: "CHR '':'' \<in> set (strip line)"
      by (simp add: spec_is_consolidation_line_def consolidation_line_has_colon)
    have "parse_lines (line # rest) consolidation narrative_lines =
            parse_lines rest (strip (spec_after_colon (strip line))) narrative_lines"
      using True by (simp add: spec_is_consolidation_line_def index1_split_once [OF colon])
    then show ?thesis
      using True by (cases "rev (filter spec_is_consolidation_line rest)") (simp_all add: Cons.IH)
  next
    case False
    then have "parse_lines (line # rest) consolidation narrative_lines =
            parse_lines rest consolidation (narrative_lines @ [line])"
      by (simp add: spec_is_consolidation_line_def)
    then show ?thesis
      using False by (simp add: Cons.IH)
  qed
qed

lemma split_nonempty: "split sep s \<noteq> []"
  by (induction s) (auto split: list.splits)

lemma index0_split: "index0 (split sep s) = Inr (hd (split sep s))"
  using split_nonempty [of sep s] by (cases "split sep s") (simp_all add: index0_def)

text \<open>
  C6. Parsing a response never fails. The title is the first line of the trimmed
  response, trimmed, with leading \<^verbatim>\<open>#\<close> and blank characters removed; each later
  line whose trimmed upper case form starts with \<^verbatim>\<open>CONSOLIDATION:\<close> is left out of
  the narrative and the trimmed remainder after its first colon is the consolidation
  (the last such line decides, and without one the consolidation is empty); the other
  lines, joined by newlines and trimmed, are the narrative. The response of the
  scenario parses to the title "Title", the narrative "Line one", newline, "Line two",
  and the consolidation "insight text".
\<close>

theorem C6_parse_dream:
  "parse_dream response =
     Inr \<lparr>dream_title = spec_title response,
          dream_narrative = spec_narrative response,
          dream_consolidation = spec_consolidation response\<rparr>
   \<and> parse_dream
         (''Title'' @ [CHR 0x0A] @ ''Line one'' @ [CHR 0x0A] @ ''CONSOLIDATION: insight text''
            @ [CHR 0x0A] @ ''Line two'') =
       Inr \<lparr>dream_title = ''Title'',
            dream_narrative = ''Line one'' @ [CHR 0x0A] @ ''Line two'',
            dream_consolidation = ''insight text''\<rparr>"
proof -
  have general: "parse_dream r =
     Inr \<lparr>dream_title = spec_title r, dream_narrative = spec_narrative r,
          dream_consolidation = spec_consolidation r\<rparr>" for r
    by (simp add: parse_dream_def Let_def index0_split parse_lines_filter spec_title_def
        spec_narrative_def spec_consolidation_def spec_lines_def)
  have scenario: "parse_dream
         (''Title'' @ [CHR 0x0A] @ ''Line one'' @ [CHR 0x0A] @ ''CONSOLIDATION: insight text''
            @ [CHR 0x0A] @ ''Line two'') =
       Inr \<lparr>dream_title = ''Title'',
            dream_narrative = ''Line one'' @ [CHR 0x0A] @ ''Line two'',
            dream_consolidation = ''insight text''\<rparr>"
    by code_simp
  from general [of response] scenario show ?thesis by (rule conjI)
qed

subsection \<open>The dream cycle\<close>


lemma last_most_recent: "0 < n \<Longrightarrow> last (most_recent n (xs @ [x])) = x"
  by (simp add: most_recent_def)

lemma last_store_working_memory:
  "last (store_working_memory now summary category metadata memories) =
     wm_entry_of (now, summary, category, metadata)"
  unfolding wm_entry_of_store by (rule last_most_recent) simp

lemma run_dream_cycle_generation_error:
  assumes "retrieve_undreamed_memories (env_cipher e) (deep_memories w) \<noteq> []"
    and "generate_dream e (retrieve_undreamed_memories (env_cipher e) (deep_memories w)) = Inl err"
  shows "run_dream_cycle e clk w = (Inl err, w)"
  using assms by (simp add: run_dream_cycle_def Let_def)


text \<open>
  However the run ends, the deep store is either untouched or marked with the collected
  ids, and in the second case a non-empty insight is already in working memory.
\<close>

lemma run_dream_cycle_deep:
  "deep_memories (snd (run_dream_cycle e clk w)) = deep_memories w
   \<or> (\<exists>d. generate_dream e (retrieve_undreamed_memories (env_cipher e) (deep_memories w)) = Inr d
        \<and> deep_memories (snd (run_dream_cycle e clk w)) =
            mark_as_dreamed (now_mark clk)
              (map mem_id (retrieve_undreamed_memories (env_cipher e) (deep_memories w)))
              (deep_memories w)
        \<and> (dream_consolidation d = [] \<or>
             (\<not> raises e Store_working_memory
              \<and> working_memory (snd (run_dream_cycle e clk w)) =
                  consolidate_dream_insight (now_insight clk) (dream_consolidation d)
                    (working_memory w))))"
  by (auto simp: run_dream_cycle_def Let_def split: sum.splits)

lemma run_dream_cycle_completes:
  assumes "fst (run_dream_cycle e clk w) = Inr (Some d)"
  shows "deep_memories (snd (run_dream_cycle e clk w)) =
            mark_as_dreamed (now_mark clk)
              (map mem_id (retrieve_undreamed_memories (env_cipher e) (deep_memories w)))
              (deep_memories w)
         \<and> retrieve_undreamed_memories (env_cipher e) (deep_memories w) \<noteq> []"
  using assms by (auto simp: run_dream_cycle_def Let_def split: sum.splits if_splits)

lemma undreamed_row_collected:
  "r \<in> set rows \<Longrightarrow> dreamed r = 0 \<Longrightarrow>
   row_id r \<in> set (map mem_id (retrieve_undreamed_memories c rows))"
  unfolding retrieve_ids by (auto simp: set_select_undreamed)




text \<open>
  C5. When there are undreamed memories and the generation collaborator fails, the
  cycle ends with that error and the world is what it was: nothing is marked, nothing is
  promoted, no file is written, the state is untouched. A later run collects the same
  memories.
\<close>

theorem C5_generation_failure_aborts:
  assumes "retrieve_undreamed_memories (env_cipher e) (deep_memories w) \<noteq> []"
    and "generate e (retrieve_undreamed_memories (env_cipher e) (deep_memories w)) = Inl err"
  shows "run_dream_cycle e clk w = (Inl err, w)
         \<and> retrieve_undreamed_memories (env_cipher e)
             (deep_memories (snd (run_dream_cycle e clk w))) =
           retrieve_undreamed_memories (env_cipher e) (deep_memories w)"
proof -
  from assms(2)
  have "generate_dream e (retrieve_undreamed_memories (env_cipher e) (deep_memories w)) = Inl err"
    by (simp add: generate_dream_def)
  with assms(1) have "run_dream_cycle e clk w = (Inl err, w)"
    by (rule run_dream_cycle_generation_error)
  then show ?thesis by simp
qed

text \<open>The example world with a collaborator that fails.\<close>

theorem C5_generation_failure_witness:
  "retrieve_undreamed_memories (env_cipher generation_failing_env) (deep_memories example_world) \<noteq> []
   \<and> run_dream_cycle generation_failing_env example_clock example_world =
       (Inl GenerationFailure, example_world)"
proof -
  have collected:
    "retrieve_undreamed_memories (env_cipher generation_failing_env) (deep_memories example_world) \<noteq> []"
    by code_simp
  have fails: "generate generation_failing_env
      (retrieve_undreamed_memories (env_cipher generation_failing_env) (deep_memories example_world)) =
      Inl GenerationFailure"
    by (simp add: generation_failing_env_def)
  from C5_generation_failure_aborts [OF collected fails, of example_clock] collected
  show ?thesis by simp
qed

text \<open>
  C8. However a cycle ends, with any of its storage calls raising or none, if it has
  changed the deep store then it has marked exactly the collected ids, the dream was
  generated, and a non-empty consolidation is already the newest entry of working
  memory. If promoting a non-empty consolidation raises, the deep store is untouched.
\<close>

theorem C8_promotion_precedes_marking:
  "(deep_memories (snd (run_dream_cycle e clk w)) \<noteq> deep_memories w \<longrightarrow>
     (\<exists>d. generate_dream e (retrieve_undreamed_memories (env_cipher e) (deep_memories w)) = Inr d
        \<and> deep_memories (snd (run_dream_cycle e clk w)) =
            mark_as_dreamed (now_mark clk)
              (map mem_id (retrieve_undreamed_memories (env_cipher e) (deep_memories w)))
              (deep_memories w)
        \<and> (dream_consolidation d \<noteq> [] \<longrightarrow>
             \<not> raises e Store_working_memory
             \<and> working_memory (snd (run_dream_cycle e clk w)) =
                 consolidate_dream_insight (now_insight clk) (dream_consolidation d)
                   (working_memory w)
             \<and> last (working_memory (snd (run_dream_cycle e clk w))) =
                 \<lparr>wm_timestamp = now_insight clk, wm_category = ''dream_consolidation'',
                  wm_summary = ''[DREAM INSIGHT] '' @ dream_consolidation d,
                  wm_metadata = None\<rparr>)))
   \<and> (\<forall>d. generate_dream e (retrieve_undreamed_memories (env_cipher e) (deep_memories w)) = Inr d
          \<longrightarrow> dream_consolidation d \<noteq> [] \<longrightarrow> raises e Store_working_memory
          \<longrightarrow> deep_memories (snd (run_dream_cycle e clk w)) = deep_memories w)"
proof -
  have entry: "last (consolidate_dream_insight t insight ms) =
      \<lparr>wm_timestamp = t, wm_category = ''dream_consolidation'',
       wm_summary = ''[DREAM INSIGHT] '' @ insight, wm_metadata = None\<rparr>" for t insight ms
    by (simp add: consolidate_dream_insight_def last_store_working_memory)
  from run_dream_cycle_deep [of e clk w] show ?thesis
    by (auto simp: entry)
qed

text \<open>In the example run all four rows end up dreamed and the insight is promoted.\<close>

theorem C8_promotion_witness:
  "deep_memories (snd (run_dream_cycle example_env example_clock example_world)) \<noteq>
     deep_memories example_world
   \<and> map dreamed (deep_memories (snd (run_dream_cycle example_env example_clock example_world))) =
       [1, 1, 1, 1]
   \<and> last (working_memory (snd (run_dream_cycle example_env example_clock example_world))) =
       \<lparr>wm_timestamp = ''2026-01-03T00:00:01'', wm_category = ''dream_consolidation'',
        wm_summary = ''[DREAM INSIGHT] insight text'', wm_metadata = None\<rparr>"
proof -
  have changed: "deep_memories (snd (run_dream_cycle example_env example_clock example_world)) \<noteq>
     deep_memories example_world"
    by code_simp
  have gen: "generate_dream example_env
      (retrieve_undreamed_memories (env_cipher example_env) (deep_memories example_world)) =
      Inr \<lparr>dream_title = ''Title'', dream_narrative = ''Line one'' @ [CHR 0x0A] @ ''Line two'',
           dream_consolidation = ''insight text''\<rparr>"
    by code_simp
  have flags:
    "map dreamed (deep_memories (snd (run_dream_cycle example_env example_clock example_world))) =
       [1, 1, 1, 1]"
    by code_simp
  have clock: "now_insight example_clock = ''2026-01-03T00:00:01''"
    by (simp add: example_clock_def)
  from C8_promotion_precedes_marking [of example_env example_clock example_world] changed gen
  have "last (working_memory (snd (run_dream_cycle example_env example_clock example_world))) =
       \<lparr>wm_timestamp = now_insight example_clock, wm_category = ''dream_consolidation'',
        wm_summary = ''[DREAM INSIGHT] insight text'', wm_metadata = None\<rparr>"
    by auto
  with changed flags clock show ?thesis by simp
qed

subsection \<open>Corrupted records\<close>

text \<open>
  C1, as the code has it. An undreamed row whose blob cannot be decrypted or parsed is
  returned by \<^verbatim>\<open>retrieve_undreamed_memories\<close> with the category "corrupted" and the
  placeholder content; reading raises nothing. The cycle collects its id like any
  other: a run either leaves the deep store untouched or marks this row too, and a run
  that returns a dream has marked it.
\<close>

theorem C1_corrupted_surfaced_then_marked:
  assumes "r \<in> set (deep_memories w)"
    and "dreamed r = 0"
    and "decrypt_loads (env_cipher e) (encrypted_blob r) = None"
  shows "\<lparr>mem_id = row_id r, mem_timestamp = row_timestamp r, mem_category = ''corrupted'',
          mem_content = JObj [(''note'', JStr ''This memory could not be recovered.'')]\<rparr>
           \<in> set (retrieve_undreamed_memories (env_cipher e) (deep_memories w))
         \<and> (deep_memories (snd (run_dream_cycle e clk w)) = deep_memories w
            \<or> r\<lparr>dreamed := 1, dream_date := Some (now_mark clk)\<rparr>
                \<in> set (deep_memories (snd (run_dream_cycle e clk w))))
         \<and> (\<forall>d. fst (run_dream_cycle e clk w) = Inr (Some d) \<longrightarrow>
               r\<lparr>dreamed := 1, dream_date := Some (now_mark clk)\<rparr>
                 \<in> set (deep_memories (snd (run_dream_cycle e clk w))))"
proof -
  from assms(1,2) have "r \<in> set (select_undreamed (deep_memories w))"
    by (simp add: set_select_undreamed)
  then have "decrypt_row (env_cipher e) r
      \<in> set (retrieve_undreamed_memories (env_cipher e) (deep_memories w))"
    by (simp add: retrieve_undreamed_memories_def)
  moreover from assms(3) have "decrypt_row (env_cipher e) r =
      \<lparr>mem_id = row_id r, mem_timestamp = row_timestamp r, mem_category = ''corrupted'',
       mem_content = JObj [(''note'', JStr ''This memory could not be recovered.'')]\<rparr>"
    by (simp add: decrypt_row_def)
  ultimately have surfaced:
    "\<lparr>mem_id = row_id r, mem_timestamp = row_timestamp r, mem_category = ''corrupted'',
      mem_content = JObj [(''note'', JStr ''This memory could not be recovered.'')]\<rparr>
       \<in> set (retrieve_undreamed_memories (env_cipher e) (deep_memories w))"
    by simp
  have marked: "r\<lparr>dreamed := 1, dream_date := Some (now_mark clk)\<rparr>
      \<in> set (mark_as_dreamed (now_mark clk)
               (map mem_id (retrieve_undreamed_memories (env_cipher e) (deep_memories w)))
               (deep_memories w))"
    using assms(1) undreamed_row_collected [OF assms(1,2)] by (rule mark_as_dreamed_member)
  from run_dream_cycle_deep [of e clk w] marked
  have either: "deep_memories (snd (run_dream_cycle e clk w)) = deep_memories w
            \<or> r\<lparr>dreamed := 1, dream_date := Some (now_mark clk)\<rparr>
                \<in> set (deep_memories (snd (run_dream_cycle e clk w)))"
    by auto
  have completes: "r\<lparr>dreamed := 1, dream_date := Some (now_mark clk)\<rparr>
                 \<in> set (deep_memories (snd (run_dream_cycle e clk w)))"
    if "fst (run_dream_cycle e clk w) = Inr (Some d)" for d
    using run_dream_cycle_completes [OF that] marked by simp
  from surfaced either completes show ?thesis by blast
qed

text \<open>Row 2 of the example table has a blob that the example cipher cannot read.\<close>

theorem C1_corrupted_witness:
  "example_row 2 ''2026-01-01T09:00'' ''garbage'' 0 None \<in> set (deep_memories example_world)
   \<and> dreamed (example_row 2 ''2026-01-01T09:00'' ''garbage'' 0 None) = 0
   \<and> decrypt_loads (env_cipher example_env)
        (encrypted_blob (example_row 2 ''2026-01-01T09:00'' ''garbage'' 0 None)) = None
   \<and> \<lparr>mem_id = 2, mem_timestamp = ''2026-01-01T09:00'', mem_category = ''corrupted'',
       mem_content = JObj [(''note'', JStr ''This memory could not be recovered.'')]\<rparr>
        \<in> set (retrieve_undreamed_memories (env_cipher example_env) (deep_memories example_world))"
proof -
  have member:
    "example_row 2 ''2026-01-01T09:00'' ''garbage'' 0 None \<in> set (deep_memories example_world)"
    by (simp add: example_world_def example_rows_def)
  have flag: "dreamed (example_row 2 ''2026-01-01T09:00'' ''garbage'' 0 None) = 0"
    by (simp add: example_row_def)
  have unreadable: "decrypt_loads (env_cipher example_env)
        (encrypted_blob (example_row 2 ''2026-01-01T09:00'' ''garbage'' 0 None)) = None"
    by (simp add: example_env_def example_cipher_def example_row_def)
  from C1_corrupted_surfaced_then_marked [OF member flag unreadable, of example_clock]
  have "\<lparr>mem_id = row_id (example_row 2 ''2026-01-01T09:00'' ''garbage'' 0 None),
         mem_timestamp = row_timestamp (example_row 2 ''2026-01-01T09:00'' ''garbage'' 0 None),
         mem_category = ''corrupted'',
         mem_content = JObj [(''note'', JStr ''This memory could not be recovered.'')]\<rparr>
        \<in> set (retrieve_undreamed_memories (env_cipher example_env) (deep_memories example_world))"
    by blast
  then have "\<lparr>mem_id = 2, mem_timestamp = ''2026-01-01T09:00'', mem_category = ''corrupted'',
       mem_content = JObj [(''note'', JStr ''This memory could not be recovered.'')]\<rparr>
        \<in> set (retrieve_undreamed_memories (env_cipher example_env) (deep_memories example_world))"
    by (simp add: example_row_def)
  with member flag unreadable show ?thesis by blast
qed

text \<open>
  A corrupted record does not stay unprocessed: in the example run row 2 is collected
  as corrupted, its flag is 0 before the cycle and 1 after it, with no other call of
  \<^verbatim>\<open>mark_as_dreamed\<close>.
\<close>

theorem C1_corrupted_marked_counterexample:
  "map mem_category
     (filter (\<lambda>m. mem_id m = 2)
        (retrieve_undreamed_memories (env_cipher example_env) (deep_memories example_world))) =
     [''corrupted'']
   \<and> map dreamed (filter (\<lambda>r. row_id r = 2) (deep_memories example_world)) = [0]
   \<and> map dreamed
       (filter (\<lambda>r. row_id r = 2)
          (deep_memories (snd (run_dream_cycle example_env example_clock example_world)))) = [1]"
proof -
  have collected: "map mem_category
     (filter (\<lambda>m. mem_id m = 2)
        (retrieve_undreamed_memories (env_cipher example_env) (deep_memories example_world))) =
     [''corrupted'']"
    by code_simp
  have before: "map dreamed (filter (\<lambda>r. row_id r = 2) (deep_memories example_world)) = [0]"
    by code_simp
  have after: "map dreamed
       (filter (\<lambda>r. row_id r = 2)
          (deep_memories (snd (run_dream_cycle example_env example_clock example_world)))) = [1]"
    by code_simp
  from collected before after show ?thesis by blast
qed

subsection \<open>Remembering in both stores\<close>

text \<open>
  C9. \<^verbatim>\<open>remember\<close> writes working memory first: when that call raises, nothing is
  written at all. Otherwise the summary is the newest working memory entry, under the
  given category. When the deep store write then raises, the error propagates, the deep
  store is untouched and the working memory entry stays. When it succeeds, the deep
  store has a new undreamed row with the same category and the encrypted context.
\<close>

theorem C9_remember_working_then_deep:
  "(raises e Store_working_memory \<longrightarrow>
      remember e now_working now_deep summary full_context category w = (Inl StorageIO, w))
   \<and> (\<not> raises e Store_working_memory \<longrightarrow>
        working_memory (snd (remember e now_working now_deep summary full_context category w)) =
          store_working_memory now_working summary category None (working_memory w)
        \<and> last (working_memory
                  (snd (remember e now_working now_deep summary full_context category w))) =
            \<lparr>wm_timestamp = now_working, wm_category = category, wm_summary = summary,
             wm_metadata = None\<rparr>
        \<and> (raises e Store_deep_memory \<longrightarrow>
              fst (remember e now_working now_deep summary full_context category w) =
                Inl StorageIO
              \<and> deep_memories (snd (remember e now_working now_deep summary full_context category w)) =
                  deep_memories w)
        \<and> (\<not> raises e Store_deep_memory \<longrightarrow>
              fst (remember e now_working now_deep summary full_context category w) = Inr ()
              \<and> deep_memories (snd (remember e now_working now_deep summary full_context category w)) =
                  deep_memories w @
                    [\<lparr>row_id = next_row_id (deep_memories w), row_timestamp = now_deep,
                      row_category = category,
                      encrypted_blob = encrypt_dumps (env_cipher e) full_context,
                      content_hash = sha256_16 (env_cipher e) full_context,
                      dreamed = 0, dream_date = None\<rparr>]))"
proof -
  have entry: "last (store_working_memory now_working summary category None (working_memory w)) =
      \<lparr>wm_timestamp = now_working, wm_category = category, wm_summary = summary,
       wm_metadata = None\<rparr>"
    by (simp add: last_store_working_memory)
  show ?thesis
    by (simp add: remember_def Let_def entry store_deep_memory_def)
qed

text \<open>A run in which the deep store write raises after working memory was written.\<close>

theorem C9_remember_witness:
  "\<not> raises deep_write_failing_env Store_working_memory
   \<and> raises deep_write_failing_env Store_deep_memory
   \<and> remember deep_write_failing_env ''2026-01-02T11:00'' ''2026-01-02T11:01'' ''met a friend''
        (JStr ''the whole conversation'') ''interaction'' example_world =
       (Inl StorageIO,
        example_world\<lparr>working_memory :=
          [\<lparr>wm_timestamp = ''2026-01-02T11:00'', wm_category = ''interaction'',
            wm_summary = ''met a friend'', wm_metadata = None\<rparr>]\<rparr>)"
proof -
  have working: "\<not> raises deep_write_failing_env Store_working_memory"
    by (simp add: deep_write_failing_env_def)
  have deep: "raises deep_write_failing_env Store_deep_memory"
    by (simp add: deep_write_failing_env_def)
  have run: "remember deep_write_failing_env ''2026-01-02T11:00'' ''2026-01-02T11:01'' ''met a friend''
        (JStr ''the whole conversation'') ''interaction'' example_world =
       (Inl StorageIO,
        example_world\<lparr>working_memory :=
          [\<lparr>wm_timestamp = ''2026-01-02T11:00'', wm_category = ''interaction'',
            wm_summary = ''met a friend'', wm_metadata = None\<rparr>]\<rparr>)"
    by code_simp
  from C9_remember_working_then_deep [of deep_write_failing_env "''2026-01-02T11:00''"
      "''2026-01-02T11:01''" "''met a friend''" "JStr ''the whole conversation''"
      "''interaction''" example_world] working deep run
  show ?thesis by simp
qed

subsection \<open>The context of an empty working memory\<close>

text \<open>
  C10. When working memory is empty, \<^verbatim>\<open>get_working_memory_context\<close> returns the
  sentence "No memories yet. This is my first day." for every budget.
\<close>

theorem C10_empty_context_sentinel:
  "get_working_memory_context max_tokens_approx [] = ''No memories yet. This is my first day.''"
  by (simp add: get_working_memory_context_def)

end
